theory Spec2Isabelle
  imports Complex_Main "HOL-Library.Char_ord" "HOL-Library.List_Lexorder" "HOL-Library.Multiset"
begin

section \<open>The coffee shop bot: catalog and cart store, conversation controller\<close>

text \<open>
  The repository is a Telegram storefront. \<^verbatim>\<open>coffee_repository.py\<close> holds the class
  \<^verbatim>\<open>CoffeeRepository\<close>, whose methods each open an SQLite connection, run one to three
  SQL statements, commit and close. \<^verbatim>\<open>main.py\<close> holds the handlers that call it.

  The embedding has three layers, as the source has:
  \<^item> the two relations and the database file that holds them;
  \<^item> one function per SQL statement of the source, run on a connection;
  \<^item> one function per repository method (the \<^verbatim>\<open>try / except sqlite3.Error / finally\<close>
    block around the statements), and the handlers of \<^verbatim>\<open>main.py\<close> the properties need.

  Scope of the model. Python \<^verbatim>\<open>int\<close> and SQLite \<^verbatim>\<open>INTEGER\<close> are both \<^typ>\<open>int\<close>: the
  signed 64-bit range of the engine's integers is not modelled. Text is a list of bytes
  (UTF-8), compared bytewise as SQLite's default collation does. The engine's \<^verbatim>\<open>REAL\<close>
  arithmetic is not fixed: the type of prices is a type variable with a sum and a product
  and nothing assumed about them, and the engine's conversion of an integer to a
  \<^verbatim>\<open>REAL\<close> is a parameter, so that every result holds for IEEE doubles as it does for
  exact arithmetic. The only engine error modelled is the one the code can cause by
  itself, a statement on a table that was never created; faults of the environment (a
  locked or unwritable file) are outside the model.
\<close>

subsection \<open>The relations\<close>

type_synonym timestamp = nat

text \<open>A row of \<^verbatim>\<open>coffees\<close>; the fields carry the alias \<^verbatim>\<open>c\<close> the source's queries use.\<close>

record 'p coffee =
  c_id :: int
  c_name :: string
  c_description :: "string option"
  c_picture_url :: "string option"
  c_price :: 'p
  c_created_at :: timestamp
  c_updated_at :: timestamp

text \<open>A row of \<^verbatim>\<open>cart_items\<close> (alias \<^verbatim>\<open>ci\<close>).\<close>

record cart_item =
  ci_id :: int
  ci_user_id :: int
  ci_coffee_id :: int
  ci_count :: int
  ci_created_at :: timestamp

text \<open>
  Both tables are declared \<^verbatim>\<open>INTEGER PRIMARY KEY AUTOINCREMENT\<close>: rows are kept in rowid
  order, which is insertion order, and each table has its entry of \<^verbatim>\<open>sqlite_sequence\<close>,
  the largest rowid it ever held.
\<close>

record 'p tables =
  coffees :: "'p coffee list"
  coffees_seq :: int
  cart_items :: "cart_item list"
  cart_items_seq :: int

text \<open>
  The database file: \<open>None\<close> is the file before \<^verbatim>\<open>initialize\<close> ran (no table exists),
  \<open>Some t\<close> the file with both tables.
\<close>

type_synonym 'p database = "'p tables option"

definition empty_tables :: "'p tables" where
  "empty_tables = \<lparr>coffees = [], coffees_seq = 0, cart_items = [], cart_items_seq = 0\<rparr>"

definition coffee_rows :: "'p database \<Rightarrow> 'p coffee list" where
  "coffee_rows db = (case db of None \<Rightarrow> [] | Some t \<Rightarrow> coffees t)"

definition cart_rows :: "'p database \<Rightarrow> cart_item list" where
  "cart_rows db = (case db of None \<Rightarrow> [] | Some t \<Rightarrow> cart_items t)"

text \<open>The primary keys of a stored database are unique; the engine guarantees it.\<close>

definition primary_keys :: "'p database \<Rightarrow> bool" where
  "primary_keys db \<longleftrightarrow>
     distinct (map c_id (coffee_rows db)) \<and> distinct (map ci_id (cart_rows db))"

subsection \<open>Connections and statements\<close>

datatype sqlite_error = OperationalError | IntegrityError

text \<open>
  \<^verbatim>\<open>_connect\<close> opens a fresh connection with \<^verbatim>\<open>sqlite3.connect(self.db_path)\<close> and sets
  nothing but the row factory. SQLite enforces foreign keys only on a connection that ran
  \<^verbatim>\<open>PRAGMA foreign_keys = ON\<close>; a fresh connection has it off, and no statement of the
  source turns it on.
\<close>

record 'p connection =
  conn_db :: "'p database"
  foreign_keys :: bool

definition connect :: "'p database \<Rightarrow> 'p connection" where
  "connect db = \<lparr>conn_db = db, foreign_keys = False\<rparr>"

definition commit :: "'p connection \<Rightarrow> 'p database" where
  "commit conn = conn_db conn"

definition fetchone :: "'a list \<Rightarrow> 'a option" where
  "fetchone rs = (case rs of [] \<Rightarrow> None | r # _ \<Rightarrow> Some r)"

text \<open>
  The rowid an \<^verbatim>\<open>AUTOINCREMENT\<close> table gives a new row: one more than the largest rowid
  the table holds or ever held.
\<close>

definition next_rowid :: "int list \<Rightarrow> int \<Rightarrow> int" where
  "next_rowid ids seq = fold max ids seq + 1"

text \<open>\<^verbatim>\<open>CREATE TABLE IF NOT EXISTS coffees ...; CREATE TABLE IF NOT EXISTS cart_items ...\<close>\<close>

definition create_tables :: "'p connection \<Rightarrow> 'p connection" where
  "create_tables conn =
     (case conn_db conn of
        None \<Rightarrow> conn\<lparr>conn_db := Some empty_tables\<rparr>
      | Some t \<Rightarrow> conn)"

text \<open>\<^verbatim>\<open>INSERT INTO coffees (name, description, picture_url, price) VALUES (?, ?, ?, ?)\<close>;
  the result is \<^verbatim>\<open>lastrowid\<close>.\<close>

definition insert_coffee ::
  "string \<Rightarrow> string option \<Rightarrow> string option \<Rightarrow> 'p \<Rightarrow> timestamp \<Rightarrow> 'p connection
     \<Rightarrow> sqlite_error + (int \<times> 'p connection)" where
  "insert_coffee name description picture_url price now conn =
     (case conn_db conn of
        None \<Rightarrow> Inl OperationalError
      | Some t \<Rightarrow>
          (let rowid = next_rowid (map c_id (coffees t)) (coffees_seq t);
               row = \<lparr>c_id = rowid, c_name = name, c_description = description,
                      c_picture_url = picture_url, c_price = price,
                      c_created_at = now, c_updated_at = now\<rparr>
           in Inr (rowid, conn\<lparr>conn_db :=
                 Some (t\<lparr>coffees := coffees t @ [row], coffees_seq := rowid\<rparr>)\<rparr>)))"

text \<open>\<^verbatim>\<open>UPDATE coffees SET name = ?, description = ?, picture_url = ?, price = ?,
  updated_at = CURRENT_TIMESTAMP WHERE id = ?\<close>; the result is \<^verbatim>\<open>rowcount\<close>.\<close>

definition update_coffee_row ::
  "int \<Rightarrow> string \<Rightarrow> string option \<Rightarrow> string option \<Rightarrow> 'p \<Rightarrow> timestamp \<Rightarrow> 'p connection
     \<Rightarrow> sqlite_error + (nat \<times> 'p connection)" where
  "update_coffee_row i name description picture_url price now conn =
     (case conn_db conn of
        None \<Rightarrow> Inl OperationalError
      | Some t \<Rightarrow>
          Inr (length (filter (\<lambda>c. c_id c = i) (coffees t)),
               conn\<lparr>conn_db := Some (t\<lparr>coffees :=
                 map (\<lambda>c. if c_id c = i
                           then c\<lparr>c_name := name, c_description := description,
                                  c_picture_url := picture_url, c_price := price,
                                  c_updated_at := now\<rparr>
                           else c) (coffees t)\<rparr>)\<rparr>))"

text \<open>
  \<^verbatim>\<open>DELETE FROM coffees WHERE id = ?\<close>. The schema declares
  \<^verbatim>\<open>FOREIGN KEY (coffee_id) REFERENCES coffees (id) ON DELETE CASCADE\<close>; the engine acts
  on it only when the connection enforces foreign keys.
\<close>

definition delete_coffee_row :: "int \<Rightarrow> 'p connection \<Rightarrow> sqlite_error + (nat \<times> 'p connection)" where
  "delete_coffee_row i conn =
     (case conn_db conn of
        None \<Rightarrow> Inl OperationalError
      | Some t \<Rightarrow>
          Inr (length (filter (\<lambda>c. c_id c = i) (coffees t)),
               conn\<lparr>conn_db := Some (t\<lparr>
                 coffees := filter (\<lambda>c. c_id c \<noteq> i) (coffees t),
                 cart_items :=
                   (if foreign_keys conn
                    then filter (\<lambda>ci. ci_coffee_id ci \<noteq> i) (cart_items t)
                    else cart_items t)\<rparr>)\<rparr>))"

text \<open>\<^verbatim>\<open>SELECT id, name, ... FROM coffees WHERE id = ?\<close> (also the \<^verbatim>\<open>SELECT id\<close> of
  \<^verbatim>\<open>add_to_cart\<close>).\<close>

definition select_coffee :: "int \<Rightarrow> 'p connection \<Rightarrow> sqlite_error + 'p coffee list" where
  "select_coffee i conn =
     (case conn_db conn of
        None \<Rightarrow> Inl OperationalError
      | Some t \<Rightarrow> Inr (filter (\<lambda>c. c_id c = i) (coffees t)))"

text \<open>\<^verbatim>\<open>SELECT id, name, ... FROM coffees ORDER BY name\<close>\<close>

definition select_coffees_by_name :: "'p connection \<Rightarrow> sqlite_error + 'p coffee list" where
  "select_coffees_by_name conn =
     (case conn_db conn of
        None \<Rightarrow> Inl OperationalError
      | Some t \<Rightarrow> Inr (sort_key c_name (coffees t)))"

text \<open>\<^verbatim>\<open>SELECT id, count FROM cart_items WHERE user_id = ? AND coffee_id = ?\<close>\<close>

definition select_cart_item :: "int \<Rightarrow> int \<Rightarrow> 'p connection \<Rightarrow> sqlite_error + cart_item list" where
  "select_cart_item user_id coffee_id conn =
     (case conn_db conn of
        None \<Rightarrow> Inl OperationalError
      | Some t \<Rightarrow>
          Inr (filter (\<lambda>ci. ci_user_id ci = user_id \<and> ci_coffee_id ci = coffee_id)
                 (cart_items t)))"

text \<open>\<^verbatim>\<open>UPDATE cart_items SET count = ? WHERE id = ?\<close>\<close>

definition update_cart_count :: "int \<Rightarrow> int \<Rightarrow> 'p connection \<Rightarrow> sqlite_error + 'p connection" where
  "update_cart_count new_count i conn =
     (case conn_db conn of
        None \<Rightarrow> Inl OperationalError
      | Some t \<Rightarrow>
          Inr (conn\<lparr>conn_db := Some (t\<lparr>cart_items :=
                 map (\<lambda>ci. if ci_id ci = i then ci\<lparr>ci_count := new_count\<rparr> else ci)
                   (cart_items t)\<rparr>)\<rparr>))"

text \<open>\<^verbatim>\<open>INSERT INTO cart_items (user_id, coffee_id, count) VALUES (?, ?, ?)\<close>. The
  connection does not enforce foreign keys, so the engine does not look the coffee up.\<close>

definition insert_cart_item ::
  "int \<Rightarrow> int \<Rightarrow> int \<Rightarrow> timestamp \<Rightarrow> 'p connection \<Rightarrow> sqlite_error + 'p connection" where
  "insert_cart_item user_id coffee_id cnt now conn =
     (case conn_db conn of
        None \<Rightarrow> Inl OperationalError
      | Some t \<Rightarrow>
          (if foreign_keys conn \<and> coffee_id \<notin> set (map c_id (coffees t))
           then Inl IntegrityError
           else
             (let rowid = next_rowid (map ci_id (cart_items t)) (cart_items_seq t);
                  row = \<lparr>ci_id = rowid, ci_user_id = user_id, ci_coffee_id = coffee_id,
                         ci_count = cnt, ci_created_at = now\<rparr>
              in Inr (conn\<lparr>conn_db :=
                    Some (t\<lparr>cart_items := cart_items t @ [row],
                            cart_items_seq := rowid\<rparr>)\<rparr>))))"

text \<open>\<^verbatim>\<open>DELETE FROM cart_items WHERE user_id = ?\<close> and \<^verbatim>\<open>DELETE FROM cart_items\<close>\<close>

definition delete_cart_items :: "int option \<Rightarrow> 'p connection \<Rightarrow> sqlite_error + 'p connection" where
  "delete_cart_items user_id conn =
     (case conn_db conn of
        None \<Rightarrow> Inl OperationalError
      | Some t \<Rightarrow>
          Inr (conn\<lparr>conn_db := Some (t\<lparr>cart_items :=
                 (case user_id of
                    Some u \<Rightarrow> filter (\<lambda>ci. ci_user_id ci \<noteq> u) (cart_items t)
                  | None \<Rightarrow> [])\<rparr>)\<rparr>))"

text \<open>
  A row of the join of \<^verbatim>\<open>get_cart_items\<close>. The key \<^verbatim>\<open>user_id\<close> is in the row only
  when the query is not scoped to a user.
\<close>

record 'p cart_line =
  cl_user_id :: "int option"
  cl_coffee_id :: int
  cl_name :: string
  cl_description :: "string option"
  cl_picture_url :: "string option"
  cl_price :: 'p
  cl_count :: int
  cl_total_price :: 'p

text \<open>
  \<^verbatim>\<open>SELECT [ci.user_id,] c.id as coffee_id, c.name, c.description, c.picture_url, c.price,
  ci.count, (c.price * ci.count) as total_price FROM cart_items ci JOIN coffees c
  ON ci.coffee_id = c.id [WHERE ci.user_id = ?]\<close>. The product is a \<^verbatim>\<open>REAL\<close> times an
  \<^verbatim>\<open>INTEGER\<close>: the engine converts the count (\<open>to_real\<close>) and multiplies.
\<close>

definition join_line :: "(int \<Rightarrow> 'p::times) \<Rightarrow> bool \<Rightarrow> cart_item \<Rightarrow> 'p coffee \<Rightarrow> 'p cart_line" where
  "join_line to_real scoped ci c =
     \<lparr>cl_user_id = (if scoped then None else Some (ci_user_id ci)),
      cl_coffee_id = c_id c, cl_name = c_name c, cl_description = c_description c,
      cl_picture_url = c_picture_url c, cl_price = c_price c, cl_count = ci_count ci,
      cl_total_price = c_price c * to_real (ci_count ci)\<rparr>"

definition select_cart_join ::
  "(int \<Rightarrow> 'p::times) \<Rightarrow> int option \<Rightarrow> 'p connection \<Rightarrow> sqlite_error + 'p cart_line list" where
  "select_cart_join to_real user_id conn =
     (case conn_db conn of
        None \<Rightarrow> Inl OperationalError
      | Some t \<Rightarrow>
          Inr (concat (map
                 (\<lambda>ci. map (join_line to_real (user_id \<noteq> None) ci)
                         (filter (\<lambda>c. ci_coffee_id ci = c_id c) (coffees t)))
                 (case user_id of
                    Some u \<Rightarrow> filter (\<lambda>ci. ci_user_id ci = u) (cart_items t)
                  | None \<Rightarrow> cart_items t))))"

subsection \<open>The methods of \<^verbatim>\<open>CoffeeRepository\<close>\<close>

text \<open>
  Each method takes the database file and returns its result with the file it leaves. An
  error of the engine is caught by \<^verbatim>\<open>except sqlite3.Error\<close>: the method returns its
  failure value, and the connection is closed without a commit, so the file is as it was.
\<close>

definition initialize :: "'p database \<Rightarrow> bool \<times> 'p database" where
  "initialize db = (True, commit (create_tables (connect db)))"

definition add_coffee ::
  "string \<Rightarrow> string option \<Rightarrow> string option \<Rightarrow> 'p \<Rightarrow> timestamp \<Rightarrow> 'p database
     \<Rightarrow> int \<times> 'p database" where
  "add_coffee name description picture_url price now db =
     (case insert_coffee name description picture_url price now (connect db) of
        Inl e \<Rightarrow> (- 1, db)
      | Inr (lastrowid, conn) \<Rightarrow> (lastrowid, commit conn))"

definition update_coffee ::
  "int \<Rightarrow> string \<Rightarrow> string option \<Rightarrow> string option \<Rightarrow> 'p \<Rightarrow> timestamp \<Rightarrow> 'p database
     \<Rightarrow> bool \<times> 'p database" where
  "update_coffee i name description picture_url price now db =
     (case update_coffee_row i name description picture_url price now (connect db) of
        Inl e \<Rightarrow> (False, db)
      | Inr (rowcount, conn) \<Rightarrow> (rowcount > 0, commit conn))"

definition delete_coffee :: "int \<Rightarrow> 'p database \<Rightarrow> bool \<times> 'p database" where
  "delete_coffee i db =
     (case delete_coffee_row i (connect db) of
        Inl e \<Rightarrow> (False, db)
      | Inr (rowcount, conn) \<Rightarrow> (rowcount > 0, commit conn))"

definition list_coffee :: "int option \<Rightarrow> 'p database \<Rightarrow> 'p coffee list" where
  "list_coffee coffee_id db =
     (case (case coffee_id of
              Some i \<Rightarrow> select_coffee i (connect db)
            | None \<Rightarrow> select_coffees_by_name (connect db)) of
        Inl e \<Rightarrow> []
      | Inr rs \<Rightarrow> rs)"

definition add_to_cart ::
  "int \<Rightarrow> int \<Rightarrow> int \<Rightarrow> timestamp \<Rightarrow> 'p database \<Rightarrow> bool \<times> 'p database" where
  "add_to_cart user_id coffee_id cnt now db =
     (let conn = connect db in
      case select_coffee coffee_id conn of
        Inl e \<Rightarrow> (False, db)
      | Inr found \<Rightarrow>
          (case fetchone found of
             None \<Rightarrow> (False, db)
           | Some _ \<Rightarrow>
               (case select_cart_item user_id coffee_id conn of
                  Inl e \<Rightarrow> (False, db)
                | Inr items \<Rightarrow>
                    (case (case fetchone items of
                             Some existing_item \<Rightarrow>
                               update_cart_count (ci_count existing_item + cnt)
                                 (ci_id existing_item) conn
                           | None \<Rightarrow> insert_cart_item user_id coffee_id cnt now conn) of
                       Inl e \<Rightarrow> (False, db)
                     | Inr conn' \<Rightarrow> (True, commit conn')))))"

definition clear_cart :: "int option \<Rightarrow> 'p database \<Rightarrow> bool \<times> 'p database" where
  "clear_cart user_id db =
     (case delete_cart_items user_id (connect db) of
        Inl e \<Rightarrow> (False, db)
      | Inr conn \<Rightarrow> (True, commit conn))"

definition get_cart_items ::
  "(int \<Rightarrow> 'p::times) \<Rightarrow> int option \<Rightarrow> 'p database \<Rightarrow> 'p cart_line list" where
  "get_cart_items to_real user_id db =
     (case select_cart_join to_real user_id (connect db) of
        Inl e \<Rightarrow> []
      | Inr rs \<Rightarrow> rs)"

subsection \<open>The handlers of \<^verbatim>\<open>main.py\<close>\<close>

text \<open>
  What a handler reads of an inbound event, and what it sends. The texts are formatted
  strings in the source (prices with \<^verbatim>\<open>:.2f\<close>); the model keeps the values a text is
  built from.
\<close>

record message =
  msg_chat_id :: int
  msg_from_user_id :: int

record callback_query =
  call_chat_id :: int
  call_message_id :: int
  call_from_user_id :: int

datatype reply_markup = MainMenu | CheckoutButton

datatype 'p text_body =
    CartEmpty
  | CartText "'p cart_line list" 'p
  | CartCleared
  | CheckoutConfirmation

datatype 'p render =
    SendMessage int "'p text_body" "reply_markup option"
  | EditMessageText "'p text_body" int int


text \<open>The handler of the menu entry that clears the cart (\<^verbatim>\<open>clear_cart\<close> in \<^verbatim>\<open>main.py\<close>).\<close>

definition clear_cart_handler :: "message \<Rightarrow> 'p database \<Rightarrow> 'p database \<times> 'p render list" where
  "clear_cart_handler message db =
     (let user_id = msg_from_user_id message;
          (ok, db') = clear_cart (Some user_id) db
      in (db', [SendMessage (msg_chat_id message) CartCleared None]))"

text \<open>\<^verbatim>\<open>callback_checkout\<close> calls \<^verbatim>\<open>repo.clear_cart()\<close> with no argument.\<close>

definition callback_checkout :: "callback_query \<Rightarrow> 'p database \<Rightarrow> 'p database \<times> 'p render list" where
  "callback_checkout call db =
     (let (ok, db') = clear_cart None db
      in (db', [EditMessageText CheckoutConfirmation (call_chat_id call)
                  (call_message_id call)]))"

subsection \<open>Sequences of operations\<close>

text \<open>The operations of the store that write, as values, to run them in sequence.\<close>

datatype 'p operation =
    Initialize
  | AddCoffee string "string option" "string option" 'p timestamp
  | UpdateCoffee int string "string option" "string option" 'p timestamp
  | DeleteCoffee int
  | AddToCart int int int timestamp
  | ClearCart "int option"

fun apply_operation :: "'p operation \<Rightarrow> 'p database \<Rightarrow> 'p database" where
  "apply_operation Initialize db = snd (initialize db)"
| "apply_operation (AddCoffee name description picture_url price now) db =
     snd (add_coffee name description picture_url price now db)"
| "apply_operation (UpdateCoffee i name description picture_url price now) db =
     snd (update_coffee i name description picture_url price now db)"
| "apply_operation (DeleteCoffee i) db = snd (delete_coffee i db)"
| "apply_operation (AddToCart user_id coffee_id cnt now) db =
     snd (add_to_cart user_id coffee_id cnt now db)"
| "apply_operation (ClearCart user_id) db = snd (clear_cart user_id db)"

definition run :: "'p operation list \<Rightarrow> 'p database \<Rightarrow> 'p database" where
  "run ops db = fold apply_operation ops db"

subsection \<open>Vocabulary of the properties, and a sample shop\<close>

text \<open>The pair a cart line is keyed by.\<close>

definition cart_key :: "cart_item \<Rightarrow> int \<times> int" where
  "cart_key ci = (ci_user_id ci, ci_coffee_id ci)"

text \<open>
  A catalog of two coffees and the cart of user 42 after adding one Latte, three Espresso
  and one more Latte: first as the calls that build it, then as the file they leave.
\<close>

definition shop_ops :: "real operation list" where
  "shop_ops =
     [Initialize,
      AddCoffee ''Latte'' (Some ''Espresso with steamed milk'') None 3.5 100,
      AddCoffee ''Espresso'' None None 2 100,
      AddToCart 42 1 1 101,
      AddToCart 42 2 3 102,
      AddToCart 42 1 1 103]"

definition latte :: "real coffee" where
  "latte = \<lparr>c_id = 1, c_name = ''Latte'', c_description = Some ''Espresso with steamed milk'',
             c_picture_url = None, c_price = 3.5, c_created_at = 100, c_updated_at = 100\<rparr>"

definition espresso :: "real coffee" where
  "espresso = \<lparr>c_id = 2, c_name = ''Espresso'', c_description = None,
                c_picture_url = None, c_price = 2, c_created_at = 100, c_updated_at = 100\<rparr>"

definition catalog_db :: "real database" where
  "catalog_db = Some \<lparr>coffees = [latte, espresso], coffees_seq = 2,
     cart_items = [], cart_items_seq = 0\<rparr>"

definition shop_db :: "real database" where
  "shop_db = Some \<lparr>coffees = [latte, espresso], coffees_seq = 2,
     cart_items =
       [\<lparr>ci_id = 1, ci_user_id = 42, ci_coffee_id = 1, ci_count = 2, ci_created_at = 101\<rparr>,
        \<lparr>ci_id = 2, ci_user_id = 42, ci_coffee_id = 2, ci_count = 3, ci_created_at = 102\<rparr>],
     cart_items_seq = 2\<rparr>"

section \<open>Properties\<close>

lemmas store_defs =
  initialize_def add_coffee_def update_coffee_def delete_coffee_def list_coffee_def
  add_to_cart_def clear_cart_def get_cart_items_def connect_def commit_def create_tables_def
  insert_coffee_def update_coffee_row_def delete_coffee_row_def select_coffee_def
  select_coffees_by_name_def select_cart_item_def update_cart_count_def insert_cart_item_def
  delete_cart_items_def select_cart_join_def join_line_def fetchone_def next_rowid_def
  empty_tables_def

lemmas shop_defs = shop_ops_def catalog_db_def shop_db_def latte_def espresso_def

lemma run_shop_ops: "run shop_ops None = shop_db"
  by (simp add: run_def shop_defs store_defs)

subsection \<open>Auxiliary facts\<close>


lemma fold_max_ge_start: "s \<le> fold max ids (s::int)"
proof (induction ids arbitrary: s)
  case Nil
  show ?case by simp
next
  case (Cons a ids)
  have "s \<le> max a s" by simp
  also have "\<dots> \<le> fold max ids (max a s)" by (rule Cons.IH)
  finally show ?case by simp
qed

lemma fold_max_ge_member: "x \<in> set ids \<Longrightarrow> x \<le> fold max ids (s::int)"
proof (induction ids arbitrary: s)
  case Nil
  then show ?case by simp
next
  case (Cons a ids)
  show ?case
  proof (cases "x = a")
    case True
    have "a \<le> max a s" by simp
    also have "\<dots> \<le> fold max ids (max a s)" by (rule fold_max_ge_start)
    finally show ?thesis using True by simp
  next
    case False
    with Cons.prems have "x \<in> set ids" by simp
    then show ?thesis by (simp add: Cons.IH)
  qed
qed

text \<open>A rowid the engine generates is not the rowid of a stored row.\<close>

lemma next_rowid_fresh: "next_rowid ids seq \<notin> set ids"
proof
  assume "next_rowid ids seq \<in> set ids"
  then have "next_rowid ids seq \<le> fold max ids seq" by (rule fold_max_ge_member)
  then show False by (simp add: next_rowid_def)
qed

subsection \<open>What each method leaves in the cart relation\<close>

lemma cart_rows_initialize: "cart_rows (snd (initialize db)) = cart_rows db"
  by (cases db)
     (simp_all add: initialize_def create_tables_def connect_def commit_def cart_rows_def
        empty_tables_def)

lemma cart_rows_add_coffee:
  "cart_rows (snd (add_coffee name description picture_url price now db)) = cart_rows db"
  by (cases db)
     (simp_all add: add_coffee_def insert_coffee_def connect_def commit_def cart_rows_def Let_def)

lemma cart_rows_update_coffee:
  "cart_rows (snd (update_coffee i name description picture_url price now db)) = cart_rows db"
  by (cases db)
     (simp_all add: update_coffee_def update_coffee_row_def connect_def commit_def cart_rows_def)

lemma cart_rows_delete_coffee: "cart_rows (snd (delete_coffee i db)) = cart_rows db"
  by (cases db)
     (simp_all add: delete_coffee_def delete_coffee_row_def connect_def commit_def cart_rows_def)

lemma cart_rows_clear_cart:
  "cart_rows (snd (clear_cart user_id db)) =
     (case user_id of
        Some u \<Rightarrow> filter (\<lambda>ci. ci_user_id ci \<noteq> u) (cart_rows db)
      | None \<Rightarrow> [])"
  by (cases db)
     (simp_all add: clear_cart_def delete_cart_items_def connect_def commit_def cart_rows_def
        split: option.splits)

lemma coffee_rows_clear_cart: "coffee_rows (snd (clear_cart user_id db)) = coffee_rows db"
  by (cases db)
     (simp_all add: clear_cart_def delete_cart_items_def connect_def commit_def coffee_rows_def)

text \<open>The three ways through \<open>add_to_cart\<close>.\<close>

lemma add_to_cart_absent:
  assumes "coffee_id \<notin> set (map c_id (coffee_rows db))"
  shows "add_to_cart user_id coffee_id cnt now db = (False, db)"
proof (cases db)
  case None
  then show ?thesis
    by (simp add: add_to_cart_def select_coffee_def connect_def)
next
  case (Some t)
  with assms have "filter (\<lambda>c. c_id c = coffee_id) (coffees t) = []"
    by (auto simp: coffee_rows_def filter_empty_conv)
  with Some show ?thesis
    by (simp add: add_to_cart_def select_coffee_def connect_def fetchone_def)
qed

lemma add_to_cart_insert:
  assumes db: "db = Some t"
    and present: "coffee_id \<in> set (map c_id (coffees t))"
    and none: "filter (\<lambda>ci. ci_user_id ci = user_id \<and> ci_coffee_id ci = coffee_id)
                 (cart_items t) = []"
  shows "add_to_cart user_id coffee_id cnt now db =
     (True, Some (t\<lparr>cart_items := cart_items t @
        [\<lparr>ci_id = next_rowid (map ci_id (cart_items t)) (cart_items_seq t),
          ci_user_id = user_id, ci_coffee_id = coffee_id, ci_count = cnt,
          ci_created_at = now\<rparr>],
        cart_items_seq := next_rowid (map ci_id (cart_items t)) (cart_items_seq t)\<rparr>))"
proof -
  from present obtain c cs where "filter (\<lambda>c. c_id c = coffee_id) (coffees t) = c # cs"
    by (cases "filter (\<lambda>c. c_id c = coffee_id) (coffees t)")
       (auto simp: filter_empty_conv)
  with db none show ?thesis
    by (simp add: add_to_cart_def select_coffee_def select_cart_item_def insert_cart_item_def
          connect_def commit_def fetchone_def Let_def)
qed

lemma add_to_cart_update:
  assumes db: "db = Some t"
    and present: "coffee_id \<in> set (map c_id (coffees t))"
    and some: "filter (\<lambda>ci. ci_user_id ci = user_id \<and> ci_coffee_id ci = coffee_id)
                 (cart_items t) = e # es"
  shows "add_to_cart user_id coffee_id cnt now db =
     (True, Some (t\<lparr>cart_items :=
        map (\<lambda>ci. if ci_id ci = ci_id e then ci\<lparr>ci_count := ci_count e + cnt\<rparr> else ci)
          (cart_items t)\<rparr>))"
proof -
  from present obtain c cs where "filter (\<lambda>c. c_id c = coffee_id) (coffees t) = c # cs"
    by (cases "filter (\<lambda>c. c_id c = coffee_id) (coffees t)")
       (auto simp: filter_empty_conv)
  with db some show ?thesis
    by (simp add: add_to_cart_def select_coffee_def select_cart_item_def update_cart_count_def
          connect_def commit_def fetchone_def)
qed

subsection \<open>One cart row per user and coffee\<close>

lemma cart_key_update_count [simp]: "cart_key (ci\<lparr>ci_count := k\<rparr>) = cart_key ci"
  by (simp add: cart_key_def)

lemma map_key_update_count:
  "map cart_key (map (\<lambda>ci. if P ci then ci\<lparr>ci_count := k\<rparr> else ci) rows) = map cart_key rows"
  by (induction rows) simp_all

lemma cart_key_add_to_cart:
  assumes "distinct (map cart_key (cart_rows db))"
  shows "distinct (map cart_key (cart_rows (snd (add_to_cart user_id coffee_id cnt now db))))"
proof (cases "coffee_id \<in> set (map c_id (coffee_rows db))")
  case False
  then show ?thesis using assms by (simp add: add_to_cart_absent)
next
  case True
  then obtain t where db: "db = Some t" and present: "coffee_id \<in> set (map c_id (coffees t))"
    by (cases db) (auto simp: coffee_rows_def)
  show ?thesis
  proof (cases "filter (\<lambda>ci. ci_user_id ci = user_id \<and> ci_coffee_id ci = coffee_id) (cart_items t)")
    case Nil
    then have fresh: "(user_id, coffee_id) \<notin> set (map cart_key (cart_items t))"
      by (auto simp: filter_empty_conv cart_key_def)
    have "\<exists>row. cart_key row = (user_id, coffee_id) \<and>
            cart_rows (snd (add_to_cart user_id coffee_id cnt now db)) = cart_items t @ [row]"
      by (simp add: add_to_cart_insert [OF db present Nil] cart_rows_def cart_key_def)
    then obtain row where "cart_key row = (user_id, coffee_id)"
      and "cart_rows (snd (add_to_cart user_id coffee_id cnt now db)) = cart_items t @ [row]"
      by blast
    with assms db fresh show ?thesis
      by (simp add: cart_rows_def)
  next
    case (Cons e es)
    have "map cart_key (cart_rows (snd (add_to_cart user_id coffee_id cnt now db))) =
            map cart_key (cart_items t)"
      by (simp add: add_to_cart_update [OF db present Cons] cart_rows_def o_def
            map_key_update_count cong: map_cong)
    with assms db show ?thesis
      by (simp add: cart_rows_def)
  qed
qed

lemma cart_key_apply_operation:
  assumes "distinct (map cart_key (cart_rows db))"
  shows "distinct (map cart_key (cart_rows (apply_operation op db)))"
proof (cases op)
  case (AddToCart user_id coffee_id cnt now)
  with assms show ?thesis by (simp add: cart_key_add_to_cart)
next
  case (ClearCart user_id)
  with assms show ?thesis
    by (simp add: cart_rows_clear_cart distinct_map_filter split: option.splits)
qed (use assms in \<open>simp_all add: cart_rows_initialize cart_rows_add_coffee
      cart_rows_update_coffee cart_rows_delete_coffee\<close>)

lemma cart_key_fold:
  "distinct (map cart_key (cart_rows db)) \<Longrightarrow>
   distinct (map cart_key (cart_rows (fold apply_operation ops db)))"
  by (induction ops arbitrary: db) (simp_all add: cart_key_apply_operation)

text \<open>
  C5. Whatever sequence of \<open>initialize\<close>, \<open>add_coffee\<close>, \<open>update_coffee\<close>,
  \<open>delete_coffee\<close>, \<open>add_to_cart\<close> and \<open>clear_cart\<close> runs on the store that has no table
  yet, the cart relation it leaves holds at most one row per pair of user and coffee: the
  keys of its rows are pairwise different.
\<close>

theorem one_cart_row_per_user_and_coffee:
  "distinct (map cart_key (cart_rows (run ops None)))"
  unfolding run_def by (rule cart_key_fold) (simp add: cart_rows_def)

subsection \<open>Clearing the cart\<close>

text \<open>
  C6. \<open>clear_cart\<close> with a user deletes the cart rows of that user and keeps every other
  row as it is and where it is; with no user it deletes every cart row. The catalog is
  not touched.
\<close>

theorem clear_cart_scope:
  "cart_rows (snd (clear_cart (Some u) db)) = filter (\<lambda>ci. ci_user_id ci \<noteq> u) (cart_rows db)
   \<and> cart_rows (snd (clear_cart None db)) = []
   \<and> coffee_rows (snd (clear_cart user_id db)) = coffee_rows db"
  by (simp add: cart_rows_clear_cart coffee_rows_clear_cart)

text \<open>
  C3. The checkout handler leaves an empty cart relation, so the rows of every user are
  gone whoever pressed the button, and its only output replaces the text of the message
  the button was under with the confirmation.
\<close>

theorem checkout_clears_every_cart:
  "cart_rows (fst (callback_checkout call db)) = []
   \<and> coffee_rows (fst (callback_checkout call db)) = coffee_rows db
   \<and> snd (callback_checkout call db) =
       [EditMessageText CheckoutConfirmation (call_chat_id call) (call_message_id call)]"
  by (cases db)
     (simp_all add: callback_checkout_def clear_cart_def delete_cart_items_def connect_def
        commit_def cart_rows_def coffee_rows_def)

subsection \<open>Calls that name a coffee the catalog does not hold\<close>





subsection \<open>Adding to the cart\<close>




lemma coffee_rows_add_to_cart:
  "coffee_rows (snd (add_to_cart user_id coffee_id cnt now db)) = coffee_rows db"
proof (cases "coffee_id \<in> set (map c_id (coffee_rows db))")
  case False
  then show ?thesis by (simp add: add_to_cart_absent)
next
  case True
  then obtain t where db: "db = Some t" and present: "coffee_id \<in> set (map c_id (coffees t))"
    by (cases db) (auto simp: coffee_rows_def)
  show ?thesis
  proof (cases "filter (\<lambda>ci. ci_user_id ci = user_id \<and> ci_coffee_id ci = coffee_id) (cart_items t)")
    case Nil
    show ?thesis
      unfolding add_to_cart_insert [OF db present Nil] by (simp add: coffee_rows_def db)
  next
    case (Cons e es)
    show ?thesis
      unfolding add_to_cart_update [OF db present Cons] by (simp add: coffee_rows_def db)
  qed
qed





subsection \<open>The lines of a cart\<close>

lemma get_cart_items_member:
  "l \<in> set (get_cart_items to_real user_id db) \<longleftrightarrow>
     (\<exists>ci\<in>set (cart_rows db). \<exists>c\<in>set (coffee_rows db).
        (case user_id of Some u \<Rightarrow> ci_user_id ci = u | None \<Rightarrow> True)
        \<and> ci_coffee_id ci = c_id c
        \<and> l = join_line to_real (user_id \<noteq> None) ci c)"
proof (cases db)
  case None
  then show ?thesis
    by (simp add: get_cart_items_def select_cart_join_def connect_def cart_rows_def)
next
  case (Some t)
  then show ?thesis
    by (cases user_id)
       (auto simp: get_cart_items_def select_cart_join_def connect_def cart_rows_def
          coffee_rows_def)
qed



subsection \<open>Listing the catalog\<close>




subsection \<open>Deleting a coffee that carts reference\<close>

text \<open>The sample shop after \<open>delete_coffee\<close> of the Espresso.\<close>

lemma orphan_db: "snd (delete_coffee 2 shop_db) =
   Some \<lparr>coffees = [latte], coffees_seq = 2,
     cart_items =
       [\<lparr>ci_id = 1, ci_user_id = 42, ci_coffee_id = 1, ci_count = 2, ci_created_at = 101\<rparr>,
        \<lparr>ci_id = 2, ci_user_id = 42, ci_coffee_id = 2, ci_count = 3, ci_created_at = 102\<rparr>],
     cart_items_seq = 2\<rparr>"
  by (simp add: store_defs shop_defs)

text \<open>
  C1. \<open>delete_coffee\<close> of a coffee the catalog holds removes the row of the coffee, so
  \<open>list_coffee\<close> of its id is empty afterwards. The cart rows that reference the coffee
  are not removed with it: the cascade is declared on a foreign key, and no connection of
  the repository enforces foreign keys. On the sample shop, which the calls of
  \<open>shop_ops\<close> build, deleting the Espresso (id 2) returns \<open>True\<close> and leaves the cart
  relation as it was, with the row of user 42 for coffee 2 still in it.
\<close>

theorem delete_coffee_leaves_cart_rows:
  "run shop_ops None = shop_db
   \<and> 2 \<in> set (map c_id (coffee_rows shop_db))
   \<and> fst (delete_coffee 2 shop_db)
   \<and> list_coffee (Some 2) (snd (delete_coffee 2 shop_db)) = []
   \<and> cart_rows (snd (delete_coffee 2 shop_db)) = cart_rows shop_db
   \<and> filter (\<lambda>ci. ci_coffee_id ci = 2) (cart_rows (snd (delete_coffee 2 shop_db))) =
       [\<lparr>ci_id = 2, ci_user_id = 42, ci_coffee_id = 2, ci_count = 3, ci_created_at = 102\<rparr>]"
proof -
  have "2 \<in> set (map c_id (coffee_rows shop_db))"
    by (simp add: coffee_rows_def shop_defs)
  moreover have "fst (delete_coffee 2 shop_db)"
    by (simp add: store_defs shop_defs)
  moreover have "list_coffee (Some 2) (snd (delete_coffee 2 shop_db)) = []"
    unfolding orphan_db by (simp add: store_defs latte_def)
  moreover have "cart_rows (snd (delete_coffee 2 shop_db)) = cart_rows shop_db"
    by (rule cart_rows_delete_coffee)
  moreover have "filter (\<lambda>ci. ci_coffee_id ci = 2) (cart_rows (snd (delete_coffee 2 shop_db))) =
       [\<lparr>ci_id = 2, ci_user_id = 42, ci_coffee_id = 2, ci_count = 3, ci_created_at = 102\<rparr>]"
    unfolding orphan_db by (simp add: cart_rows_def)
  ultimately show ?thesis using run_shop_ops by blast
qed

text \<open>
  C10. Every line \<open>get_cart_items\<close> returns carries the id of a coffee of the catalog.
  A cart row whose coffee is not in the catalog gives no line, for one user or for all,
  whether or not the row is still stored; a cart row in the scope of the query whose
  coffee is in the catalog gives a line with its count.
\<close>

theorem cart_lines_reference_catalog:
  "(\<forall>l\<in>set (get_cart_items to_real user_id db).
      cl_coffee_id l \<in> set (map c_id (coffee_rows db)))
   \<and> (\<forall>ci\<in>set (cart_rows db).
        ci_coffee_id ci \<notin> set (map c_id (coffee_rows db)) \<longrightarrow>
        (\<forall>l\<in>set (get_cart_items to_real user_id db). cl_coffee_id l \<noteq> ci_coffee_id ci))
   \<and> (\<forall>ci\<in>set (cart_rows db).
        (case user_id of Some u \<Rightarrow> ci_user_id ci = u | None \<Rightarrow> True) \<longrightarrow>
        ci_coffee_id ci \<in> set (map c_id (coffee_rows db)) \<longrightarrow>
        (\<exists>l\<in>set (get_cart_items to_real user_id db).
           cl_coffee_id l = ci_coffee_id ci \<and> cl_count l = ci_count ci))"
proof -
  have refs: "\<forall>l\<in>set (get_cart_items to_real user_id db).
      cl_coffee_id l \<in> set (map c_id (coffee_rows db))"
  proof
    fix l assume "l \<in> set (get_cart_items to_real user_id db)"
    then obtain ci c where "c \<in> set (coffee_rows db)"
      and "l = join_line to_real (user_id \<noteq> None) ci c"
      unfolding get_cart_items_member by blast
    then show "cl_coffee_id l \<in> set (map c_id (coffee_rows db))"
      by (simp add: join_line_def)
  qed
  then have orphans: "\<forall>ci\<in>set (cart_rows db).
        ci_coffee_id ci \<notin> set (map c_id (coffee_rows db)) \<longrightarrow>
        (\<forall>l\<in>set (get_cart_items to_real user_id db). cl_coffee_id l \<noteq> ci_coffee_id ci)"
    by metis
  have shown: "\<forall>ci\<in>set (cart_rows db).
        (case user_id of Some u \<Rightarrow> ci_user_id ci = u | None \<Rightarrow> True) \<longrightarrow>
        ci_coffee_id ci \<in> set (map c_id (coffee_rows db)) \<longrightarrow>
        (\<exists>l\<in>set (get_cart_items to_real user_id db).
           cl_coffee_id l = ci_coffee_id ci \<and> cl_count l = ci_count ci)"
  proof (intro ballI impI)
    fix ci
    assume ci: "ci \<in> set (cart_rows db)"
      and user: "case user_id of Some u \<Rightarrow> ci_user_id ci = u | None \<Rightarrow> True"
      and "ci_coffee_id ci \<in> set (map c_id (coffee_rows db))"
    then obtain c where c: "c \<in> set (coffee_rows db)" "ci_coffee_id ci = c_id c"
      by auto
    with ci user have "join_line to_real (user_id \<noteq> None) ci c
        \<in> set (get_cart_items to_real user_id db)"
      unfolding get_cart_items_member by blast
    moreover have "cl_coffee_id (join_line to_real (user_id \<noteq> None) ci c) = ci_coffee_id ci"
      "cl_count (join_line to_real (user_id \<noteq> None) ci c) = ci_count ci"
      using c by (simp_all add: join_line_def)
    ultimately show "\<exists>l\<in>set (get_cart_items to_real user_id db).
           cl_coffee_id l = ci_coffee_id ci \<and> cl_count l = ci_count ci"
      by blast
  qed
  from refs orphans shown show ?thesis by blast
qed

theorem cart_lines_reference_catalog_witness:
  "\<lparr>ci_id = 2, ci_user_id = 42, ci_coffee_id = 2, ci_count = 3, ci_created_at = 102\<rparr>
      \<in> set (cart_rows (snd (delete_coffee 2 shop_db)))
   \<and> 2 \<notin> set (map c_id (coffee_rows (snd (delete_coffee 2 shop_db))))
   \<and> 2 \<notin> set (map cl_coffee_id
         (get_cart_items real_of_int (Some 42) (snd (delete_coffee 2 shop_db))))
   \<and> get_cart_items real_of_int (Some 42) (snd (delete_coffee 2 shop_db)) =
       [\<lparr>cl_user_id = None, cl_coffee_id = 1, cl_name = ''Latte'',
         cl_description = Some ''Espresso with steamed milk'', cl_picture_url = None,
         cl_price = 3.5, cl_count = 2, cl_total_price = 7\<rparr>]"
proof -
  let ?db = "snd (delete_coffee 2 shop_db)"
  let ?row = "\<lparr>ci_id = 2, ci_user_id = 42, ci_coffee_id = 2, ci_count = 3, ci_created_at = 102\<rparr>"
  have stored: "?row \<in> set (cart_rows ?db)"
    unfolding orphan_db by (simp add: cart_rows_def)
  have gone: "ci_coffee_id ?row \<notin> set (map c_id (coffee_rows ?db))"
    unfolding orphan_db by (simp add: coffee_rows_def latte_def)
  from cart_lines_reference_catalog [of real_of_int "Some 42" ?db] stored gone
  have "\<forall>l\<in>set (get_cart_items real_of_int (Some 42) ?db). cl_coffee_id l \<noteq> ci_coffee_id ?row"
    by blast
  then have hidden: "2 \<notin> set (map cl_coffee_id (get_cart_items real_of_int (Some 42) ?db))"
    by auto
  have lines: "get_cart_items real_of_int (Some 42) ?db =
       [\<lparr>cl_user_id = None, cl_coffee_id = 1, cl_name = ''Latte'',
         cl_description = Some ''Espresso with steamed milk'', cl_picture_url = None,
         cl_price = 3.5, cl_count = 2, cl_total_price = 7\<rparr>]"
    unfolding orphan_db by (simp add: store_defs latte_def)
  from stored gone hidden lines show ?thesis by simp
qed

subsection \<open>Primary keys stay unique\<close>

text \<open>
  The hypothesis \<open>primary_keys\<close> of the results above holds of the store without tables
  and every method keeps it, so it holds of every file the repository can produce.
\<close>

lemma primary_keys_initialize: "primary_keys db \<Longrightarrow> primary_keys (snd (initialize db))"
  by (cases db)
     (simp_all add: primary_keys_def initialize_def create_tables_def connect_def commit_def
        coffee_rows_def cart_rows_def empty_tables_def)

lemma primary_keys_add_coffee:
  "primary_keys db \<Longrightarrow> primary_keys (snd (add_coffee name description picture_url price now db))"
proof (cases db)
  case None
  then show ?thesis
    by (simp add: primary_keys_def coffee_rows_def cart_rows_def add_coffee_def
          insert_coffee_def connect_def)
next
  case (Some t)
  assume "primary_keys db"
  with Some next_rowid_fresh [of "map c_id (coffees t)" "coffees_seq t"] show ?thesis
    by (simp add: primary_keys_def add_coffee_def insert_coffee_def connect_def commit_def
          coffee_rows_def cart_rows_def Let_def)
qed

lemma map_id_update_coffee:
  "map c_id (map (\<lambda>c. if P c then c\<lparr>c_name := a, c_description := b, c_picture_url := u,
       c_price := p, c_updated_at := n\<rparr> else c) rows) = map c_id rows"
  by (induction rows) simp_all

lemma map_id_update_count:
  "map ci_id (map (\<lambda>ci. if P ci then ci\<lparr>ci_count := k\<rparr> else ci) rows) = map ci_id rows"
  by (induction rows) simp_all

lemma primary_keys_update_coffee:
  assumes "primary_keys db"
  shows "primary_keys (snd (update_coffee i name description picture_url price now db))"
proof (cases db)
  case None
  then show ?thesis
    by (simp add: primary_keys_def coffee_rows_def cart_rows_def update_coffee_def
          update_coffee_row_def connect_def)
next
  case (Some t)
  have "coffee_rows (snd (update_coffee i name description picture_url price now db)) =
      map (\<lambda>c. if c_id c = i then c\<lparr>c_name := name, c_description := description,
        c_picture_url := picture_url, c_price := price, c_updated_at := now\<rparr> else c) (coffees t)"
    using Some
    by (simp add: update_coffee_def update_coffee_row_def connect_def commit_def coffee_rows_def)
  then have "map c_id (coffee_rows (snd (update_coffee i name description picture_url price now db)))
      = map c_id (coffees t)"
    by (simp only: map_id_update_coffee)
  with assms Some show ?thesis
    by (simp add: primary_keys_def cart_rows_update_coffee) (simp add: coffee_rows_def)
qed

lemma primary_keys_delete_coffee: "primary_keys db \<Longrightarrow> primary_keys (snd (delete_coffee i db))"
  by (cases db)
     (simp_all add: primary_keys_def delete_coffee_def delete_coffee_row_def connect_def
        commit_def coffee_rows_def cart_rows_def distinct_map_filter)

lemma primary_keys_clear_cart: "primary_keys db \<Longrightarrow> primary_keys (snd (clear_cart user_id db))"
  by (simp add: primary_keys_def cart_rows_clear_cart coffee_rows_clear_cart
        distinct_map_filter split: option.split)

lemma primary_keys_add_to_cart:
  assumes "primary_keys db"
  shows "primary_keys (snd (add_to_cart user_id coffee_id cnt now db))"
proof (cases "coffee_id \<in> set (map c_id (coffee_rows db))")
  case False
  then show ?thesis using assms by (simp add: add_to_cart_absent)
next
  case True
  then obtain t where db: "db = Some t" and present: "coffee_id \<in> set (map c_id (coffees t))"
    by (cases db) (auto simp: coffee_rows_def)
  from assms db have d: "distinct (map ci_id (cart_items t))"
    by (simp add: primary_keys_def cart_rows_def)
  have "distinct (map ci_id (cart_rows (snd (add_to_cart user_id coffee_id cnt now db))))"
  proof (cases "filter (\<lambda>ci. ci_user_id ci = user_id \<and> ci_coffee_id ci = coffee_id) (cart_items t)")
    case Nil
    show ?thesis
      unfolding add_to_cart_insert [OF db present Nil]
      using d next_rowid_fresh [of "map ci_id (cart_items t)" "cart_items_seq t"]
      by (simp add: cart_rows_def)
  next
    case (Cons e es)
    have "cart_rows (snd (add_to_cart user_id coffee_id cnt now db)) =
        map (\<lambda>ci. if ci_id ci = ci_id e then ci\<lparr>ci_count := ci_count e + cnt\<rparr> else ci)
          (cart_items t)"
      unfolding add_to_cart_update [OF db present Cons] by (simp add: cart_rows_def)
    then have "map ci_id (cart_rows (snd (add_to_cart user_id coffee_id cnt now db))) =
        map ci_id (cart_items t)"
      by (simp only: map_id_update_count)
    with d show ?thesis by simp
  qed
  with assms show ?thesis
    by (simp add: primary_keys_def coffee_rows_add_to_cart)
qed

lemma primary_keys_apply_operation:
  "primary_keys db \<Longrightarrow> primary_keys (apply_operation op db)"
  by (cases op)
     (simp_all add: primary_keys_initialize primary_keys_add_coffee primary_keys_update_coffee
        primary_keys_delete_coffee primary_keys_add_to_cart primary_keys_clear_cart)

lemma primary_keys_fold:
  "primary_keys db \<Longrightarrow> primary_keys (fold apply_operation ops db)"
  by (induction ops arbitrary: db) (simp_all add: primary_keys_apply_operation)

lemma primary_keys_run: "primary_keys (run ops None)"
  unfolding run_def
  by (rule primary_keys_fold) (simp add: primary_keys_def coffee_rows_def cart_rows_def)

end
